theory Spec2Isabelle
  imports Complex_Main "HOL-Library.Sublist"
begin

section \<open>Strings and the JavaScript operations the provider uses on them\<close>

text \<open>
  A JavaScript string is modelled as a \<^typ>\<open>string\<close> whose characters are the code points
  0..255 (ASCII and Latin-1). An optional property (\<^verbatim>\<open>name?: string\<close>, a field that may be
  \<^verbatim>\<open>undefined\<close>) is a \<^typ>\<open>string option\<close>.
\<close>

text \<open>\<^verbatim>\<open>String.prototype.toLowerCase\<close> on one character: A-Z and the Latin-1 capitals
  (U+00C0..U+00DE without the multiplication sign U+00D7) move up by 32.\<close>

definition toLowerChar :: "char \<Rightarrow> char" where
  "toLowerChar c =
     (let n = (of_char c :: nat)
      in if (65 \<le> n \<and> n \<le> 90) \<or> (192 \<le> n \<and> n \<le> 222 \<and> n \<noteq> 215)
         then char_of (n + 32) else c)"

definition toLowerCase :: "string \<Rightarrow> string" where
  "toLowerCase s = map toLowerChar s"

text \<open>\<^verbatim>\<open>s.includes(t)\<close>: \<open>t\<close> occurs in \<open>s\<close> as a contiguous run of characters.\<close>

primrec str_includes :: "string \<Rightarrow> string \<Rightarrow> bool" where
  "str_includes [] t = (t = [])"
| "str_includes (c # s) t = (prefix t (c # s) \<or> str_includes s t)"

text \<open>\<^verbatim>\<open>s.split(sep)\<close> for a one-character separator: never an empty array.\<close>

fun split :: "string \<Rightarrow> char \<Rightarrow> string list" where
  "split [] sep = [[]]"
| "split (c # cs) sep =
     (if c = sep then [] # split cs sep
      else (case split cs sep of
              [] \<Rightarrow> [[c]]
            | seg # segs \<Rightarrow> (c # seg) # segs))"

text \<open>\<^verbatim>\<open>Array.prototype.pop\<close>, read for its result only: \<^verbatim>\<open>undefined\<close> on an empty array.\<close>

definition pop :: "'a list \<Rightarrow> 'a option" where
  "pop xs = (if xs = [] then None else Some (last xs))"

text \<open>Truthiness of an optional string: \<^verbatim>\<open>undefined\<close> and the empty string are falsy.\<close>

definition truthy :: "string option \<Rightarrow> bool" where
  "truthy x = (case x of None \<Rightarrow> False | Some s \<Rightarrow> s \<noteq> [])"

text \<open>\<^verbatim>\<open>x || d\<close> on an optional string \<open>x\<close> with a string default \<open>d\<close>.\<close>

definition orElse :: "string option \<Rightarrow> string \<Rightarrow> string" where
  "orElse x d = (case x of None \<Rightarrow> d | Some s \<Rightarrow> if s = [] then d else s)"

section \<open>Data model\<close>

text \<open>The capability tags the provider uses (\<^verbatim>\<open>MediaCapability\<close> of the host package).\<close>

datatype MediaCapability =
    TEXT_TO_IMAGE
  | TEXT_TO_VIDEO
  | TEXT_TO_AUDIO
  | IMAGE_TO_IMAGE
  | IMAGE_TO_VIDEO
  | VIDEO_TO_VIDEO

text \<open>One descriptor of the parameter schema, \<^verbatim>\<open>{ type, description?, min?, max?, default? }\<close>.\<close>

record ParameterDescriptor =
  p_type :: string
  p_description :: "string option"
  p_min :: "rat option"
  p_max :: "rat option"
  p_default :: "rat option"

type_synonym Parameters = "(string \<times> ParameterDescriptor) list"

text \<open>\<^verbatim>\<open>ProviderModel\<close>: one Catalog entry.\<close>

record ProviderModel =
  model_id :: string
  model_name :: string
  model_description :: string
  model_capabilities :: "MediaCapability list"
  model_parameters :: Parameters

text \<open>One record of the remote listing (\<^verbatim>\<open>modelData\<close>); every property may be missing.\<close>

record ModelData =
  data_id :: "string option"
  data_name :: "string option"
  data_description :: "string option"
  data_parameters :: "Parameters option"

text \<open>The response of \<^verbatim>\<open>client.listModels()\<close>; an element of \<^verbatim>\<open>results\<close> may be
  \<^verbatim>\<open>null\<close> (the loop reads it with \<^verbatim>\<open>modelData?.id\<close>).\<close>

record ListResponse =
  results :: "ModelData option list option"

section \<open>The Catalog: a JavaScript Map with string keys\<close>

text \<open>A \<^verbatim>\<open>Map\<close> keeps insertion order: an association list. \<^verbatim>\<open>set\<close> on a present key
  replaces the value in place, on a new key it appends.\<close>

type_synonym Catalog = "(string \<times> ProviderModel) list"

definition Map_has :: "Catalog \<Rightarrow> string \<Rightarrow> bool" where
  "Map_has m k = (k \<in> set (map fst m))"

definition Map_get :: "Catalog \<Rightarrow> string \<Rightarrow> ProviderModel option" where
  "Map_get m k = map_of m k"

fun Map_set :: "Catalog \<Rightarrow> string \<Rightarrow> ProviderModel \<Rightarrow> Catalog" where
  "Map_set [] k v = [(k, v)]"
| "Map_set ((k', v') # m) k v =
     (if k' = k then (k, v) # m else (k', v') # Map_set m k v)"

definition Map_values :: "Catalog \<Rightarrow> ProviderModel list" where
  "Map_values m = map snd m"

section \<open>Capability classifier\<close>

text \<open>\<^verbatim>\<open>inferCapabilitiesFromModel(modelData)\<close>. \<^verbatim>\<open>(modelData?.id || '')\<close> is the id or the
  empty string; the capabilities are pushed in the order of the five tests.\<close>

definition inferCapabilitiesFromModel :: "ModelData option \<Rightarrow> MediaCapability list" where
  "inferCapabilitiesFromModel modelData =
     (let modelId = toLowerCase (orElse (case modelData of None \<Rightarrow> None | Some d \<Rightarrow> data_id d) []);
          description = toLowerCase
            (orElse (case modelData of None \<Rightarrow> None | Some d \<Rightarrow> data_description d) []);
          c1 = (if str_includes modelId ''text-to-image'' \<or> str_includes modelId ''txt2img'' \<or>
                   str_includes modelId ''flux'' \<or> str_includes modelId ''sdxl'' \<or>
                   str_includes modelId ''stable-diffusion'' \<or>
                   str_includes description ''text to image'' \<or>
                   str_includes description ''generate image''
                then [TEXT_TO_IMAGE] else []);
          c2 = (if str_includes modelId ''text-to-video'' \<or> str_includes modelId ''video'' \<or>
                   str_includes description ''text to video'' \<or>
                   str_includes description ''video generation''
                then c1 @ [TEXT_TO_VIDEO] else c1);
          c3 = (if str_includes modelId ''music'' \<or> str_includes modelId ''audio'' \<or>
                   str_includes modelId ''speech'' \<or> str_includes modelId ''tts'' \<or>
                   str_includes description ''music'' \<or> str_includes description ''audio'' \<or>
                   str_includes description ''speech''
                then c2 @ [TEXT_TO_AUDIO] else c2);
          c4 = (if str_includes modelId ''upscale'' \<or> str_includes modelId ''enhance'' \<or>
                   str_includes modelId ''restore'' \<or>
                   str_includes description ''upscale'' \<or> str_includes description ''enhance'' \<or>
                   str_includes description ''restore''
                then c3 @ [IMAGE_TO_IMAGE] else c3);
          c5 = (if str_includes modelId ''image-to-video'' \<or>
                   str_includes description ''image to video''
                then c4 @ [IMAGE_TO_VIDEO] else c4)
      in if length c5 = 0 then c5 @ [TEXT_TO_IMAGE] else c5)"

section \<open>Merging one discovered record (the body of the loop of performModelDiscovery)\<close>

text \<open>
  \<^verbatim>\<open>if (!modelData?.id) continue;\<close> skips a null record, a record without id and a record
  whose id is the empty string. A new id is stored with
  \<^verbatim>\<open>name: modelData.name || modelData.id.split('/').pop() || modelData.id\<close>,
  \<^verbatim>\<open>description: modelData.description || `Replicate model: ${modelData.id}`\<close> and
  \<^verbatim>\<open>parameters: modelData.parameters || {}\<close>.
\<close>

definition discoverModel :: "Catalog \<Rightarrow> ModelData option \<Rightarrow> Catalog" where
  "discoverModel m modelData =
     (case modelData of
        None \<Rightarrow> m
      | Some d \<Rightarrow>
          (case data_id d of
             None \<Rightarrow> m
           | Some i \<Rightarrow>
               if i = [] then m
               else if \<not> Map_has m i then
                 Map_set m i
                   \<lparr> model_id = i,
                     model_name = orElse (data_name d) (orElse (pop (split i CHR ''/'')) i),
                     model_description =
                       orElse (data_description d) (''Replicate model: '' @ i),
                     model_capabilities = inferCapabilitiesFromModel modelData,
                     model_parameters =
                       (case data_parameters d of None \<Rightarrow> [] | Some ps \<Rightarrow> ps) \<rparr>
               else m))"

section \<open>Bootstrap: initializeKnownReplicateModels\<close>

record ModelDef =
  def_id :: string
  def_name :: string
  def_description :: string
  def_capabilities :: "MediaCapability list"

definition knownModels :: "ModelDef list" where
  "knownModels =
   [ \<lparr> def_id = ''black-forest-labs/flux-schnell'', def_name = ''FLUX.1 Schnell'',
       def_description = ''Fast and high-quality text-to-image generation'',
       def_capabilities = [TEXT_TO_IMAGE] \<rparr>,
     \<lparr> def_id = ''black-forest-labs/flux-dev'', def_name = ''FLUX.1 Dev'',
       def_description = ''FLUX.1 development model for text-to-image'',
       def_capabilities = [TEXT_TO_IMAGE] \<rparr>,
     \<lparr> def_id = ''stability-ai/sdxl'', def_name = ''Stable Diffusion XL'',
       def_description = ''Stable Diffusion XL for high-quality images'',
       def_capabilities = [TEXT_TO_IMAGE] \<rparr>,
     \<lparr> def_id = ''bytedance/sdxl-lightning-4step'', def_name = ''SDXL Lightning'',
       def_description = ''Ultra-fast SDXL in 4 steps'',
       def_capabilities = [TEXT_TO_IMAGE] \<rparr>,
     \<lparr> def_id = ''playgroundai/playground-v2.5-1024px-aesthetic'',
       def_name = ''Playground v2.5'',
       def_description = ''Aesthetic-focused image generation'',
       def_capabilities = [TEXT_TO_IMAGE] \<rparr>,
     \<lparr> def_id = ''lumalabs/dream-machine'', def_name = ''Luma Dream Machine'',
       def_description = ''High-quality text-to-video generation'',
       def_capabilities = [TEXT_TO_VIDEO] \<rparr>,
     \<lparr> def_id = ''minimax/video-01'', def_name = ''MiniMax Video-01'',
       def_description = ''Advanced text-to-video model'',
       def_capabilities = [TEXT_TO_VIDEO] \<rparr>,
     \<lparr> def_id = ''genmo/mochi-1-preview'', def_name = ''Mochi-1 Preview'',
       def_description = ''High-quality video generation model'',
       def_capabilities = [TEXT_TO_VIDEO] \<rparr>,
     \<lparr> def_id = ''meta/musicgen'', def_name = ''MusicGen'',
       def_description = ''Meta'' @ [CHR 0x27] @ ''s music generation model'',
       def_capabilities = [TEXT_TO_AUDIO] \<rparr>,
     \<lparr> def_id = ''suno-ai/bark'', def_name = ''Bark'',
       def_description = ''Text-to-speech with voice cloning'',
       def_capabilities = [TEXT_TO_AUDIO] \<rparr>,
     \<lparr> def_id = ''afiaka87/tortoise-tts'', def_name = ''Tortoise TTS'',
       def_description = ''High-quality text-to-speech'',
       def_capabilities = [TEXT_TO_AUDIO] \<rparr>,
     \<lparr> def_id = ''nightmareai/real-esrgan'', def_name = ''Real-ESRGAN'',
       def_description = ''Image upscaling and enhancement'',
       def_capabilities = [IMAGE_TO_IMAGE] \<rparr>,
     \<lparr> def_id = ''tencentarc/gfpgan'', def_name = ''GFPGAN'',
       def_description = ''Face restoration and enhancement'',
       def_capabilities = [IMAGE_TO_IMAGE] \<rparr>,
     \<lparr> def_id = ''stability-ai/stable-video-diffusion'',
       def_name = ''Stable Video Diffusion'',
       def_description = ''Generate videos from images'',
       def_capabilities = [IMAGE_TO_VIDEO] \<rparr> ]"

text \<open>The parameter schema every bootstrap entry gets, in the order the literal lists it.\<close>

definition knownParameters :: Parameters where
  "knownParameters =
   [ (''prompt'', \<lparr> p_type = ''string'', p_description = Some ''Text prompt for generation'',
        p_min = None, p_max = None, p_default = None \<rparr>),
     (''width'', \<lparr> p_type = ''number'', p_description = None,
        p_min = Some 128, p_max = Some 2048, p_default = Some 1024 \<rparr>),
     (''height'', \<lparr> p_type = ''number'', p_description = None,
        p_min = Some 128, p_max = Some 2048, p_default = Some 1024 \<rparr>),
     (''num_inference_steps'', \<lparr> p_type = ''number'', p_description = None,
        p_min = Some 1, p_max = Some 100, p_default = Some 50 \<rparr>),
     (''guidance_scale'', \<lparr> p_type = ''number'', p_description = None,
        p_min = Some 0, p_max = Some 20, p_default = Some (15 / 2) \<rparr>) ]"

text \<open>The body of \<^verbatim>\<open>knownModels.forEach\<close>: build the entry, store it under its id.\<close>

definition setKnownModel :: "Catalog \<Rightarrow> ModelDef \<Rightarrow> Catalog" where
  "setKnownModel m modelDef =
     Map_set m (def_id modelDef)
       \<lparr> model_id = def_id modelDef,
         model_name = def_name modelDef,
         model_description = def_description modelDef,
         model_capabilities = def_capabilities modelDef,
         model_parameters = knownParameters \<rparr>"

definition initializeKnownReplicateModels :: "Catalog \<Rightarrow> Catalog" where
  "initializeKnownReplicateModels m = foldl setKnownModel m knownModels"

section \<open>The provider object\<close>

text \<open>\<^verbatim>\<open>ProviderConfig\<close> as this file reads it, and the \<^verbatim>\<open>ReplicateConfig\<close> handed to the client.
  The client class is an external collaborator: a client is the configuration it was built
  from.\<close>

record ProviderConfig =
  cfg_apiKey :: "string option"
  cfg_timeout :: "rat option"
  cfg_retries :: "rat option"

record ReplicateConfig =
  rc_apiKey :: string
  rc_timeout :: rat
  rc_retries :: rat

datatype ReplicateClient = ReplicateClient ReplicateConfig

record ReplicateProvider =
  config :: "ProviderConfig option"
  client :: "ReplicateClient option"
  discoveredModels :: Catalog

text \<open>The errors the provider throws, one constructor for each message:
  \<^item> \<open>TokenRequired\<close>: "Replicate API token is required" (configure);
  \<^item> \<open>ProviderNotConfigured\<close>: "Provider not configured - set REPLICATE_API_TOKEN environment
    variable or call configure()" (getModel);
  \<^item> \<open>ModelNotFound id\<close>: "Model 'id' not found in known models" (getModel);
  \<^item> \<open>NotConfigured\<close>: "Provider not configured" (the create methods, getModelMetadata);
  \<^item> \<open>NoApiKey\<close>: "Provider not configured with API key" (getReplicateClient);
  \<^item> \<open>DiscoveryTimeout\<close>: "Discovery timeout" (the timer of the background discovery);
  \<^item> \<open>TransportError msg\<close>: whatever the remote service rejects with.\<close>

datatype error =
    TokenRequired
  | ProviderNotConfigured
  | ModelNotFound string
  | NotConfigured
  | NoApiKey
  | DiscoveryTimeout
  | TransportError string

text \<open>\<^verbatim>\<open>x || d\<close> on an optional number: \<^verbatim>\<open>undefined\<close> and 0 are falsy.\<close>

definition numOrElse :: "rat option \<Rightarrow> rat \<Rightarrow> rat" where
  "numOrElse x d = (case x of None \<Rightarrow> d | Some n \<Rightarrow> if n = 0 then d else n)"

text \<open>\<^verbatim>\<open>configure(config)\<close>: the result is what the call throws (if anything) together with the
  provider as the call leaves it. The assignment to \<^verbatim>\<open>this.config\<close> is the first statement,
  before the test of the key.\<close>

definition configure :: "ReplicateProvider \<Rightarrow> ProviderConfig \<Rightarrow> error option \<times> ReplicateProvider" where
  "configure this cfg =
     (let this1 = this\<lparr> config := Some cfg \<rparr>
      in if \<not> truthy (cfg_apiKey cfg) then (Some TokenRequired, this1)
         else
           (let replicateConfig =
                  \<lparr> rc_apiKey = orElse (cfg_apiKey cfg) [],
                    rc_timeout = numOrElse (cfg_timeout cfg) 600000,
                    rc_retries = numOrElse (cfg_retries cfg) 2 \<rparr>
            in (None, this1\<lparr> client := Some (ReplicateClient replicateConfig) \<rparr>)))"

text \<open>The getter \<^verbatim>\<open>models\<close>: the values of the Map in insertion order.\<close>

definition models :: "ReplicateProvider \<Rightarrow> ProviderModel list" where
  "models this = Map_values (discoveredModels this)"

text \<open>A read leaves the provider as it is: the result comes with the unchanged object.\<close>

definition getModelsForCapability ::
  "ReplicateProvider \<Rightarrow> MediaCapability \<Rightarrow> ProviderModel list \<times> ReplicateProvider" where
  "getModelsForCapability this capability =
     (filter (\<lambda>model. capability \<in> set (model_capabilities model)) (models this), this)"

subsection \<open>getModel and the wrapper constructors\<close>

text \<open>The metadata handed to a wrapper. Of \<^verbatim>\<open>ReplicateModelMetadata\<close> the fields computed from
  the Catalog entry are kept; the constant fields (tags, visibility, run_count, pricing), the
  converted parameter schema and the clock reading \<^verbatim>\<open>lastUpdated\<close> are left out.\<close>

record ReplicateModelMetadata =
  meta_id :: string
  meta_owner :: string
  meta_name :: string
  meta_description :: string
  meta_category :: string
  meta_capabilities :: "MediaCapability list"

definition getCategoryFromCapabilities :: "MediaCapability list \<Rightarrow> string" where
  "getCategoryFromCapabilities capabilities =
     (if TEXT_TO_IMAGE \<in> set capabilities then ''text-to-image''
      else if TEXT_TO_VIDEO \<in> set capabilities then ''text-to-video''
      else if TEXT_TO_AUDIO \<in> set capabilities then ''text-to-audio''
      else if IMAGE_TO_IMAGE \<in> set capabilities then ''image-to-image''
      else if IMAGE_TO_VIDEO \<in> set capabilities then ''image-to-video''
      else if VIDEO_TO_VIDEO \<in> set capabilities then ''video-to-video''
      else ''other'')"

text \<open>\<^verbatim>\<open>getModelMetadata\<close>: a known model is converted; an unknown id is asked of the remote
  metadata service, the parameter \<open>remote\<close>.\<close>

definition getModelMetadata ::
  "(string \<Rightarrow> error + ReplicateModelMetadata) \<Rightarrow> ReplicateProvider \<Rightarrow> string
     \<Rightarrow> error + ReplicateModelMetadata" where
  "getModelMetadata remote this modelId =
     (if client this = None then Inl NotConfigured
      else
        (case Map_get (discoveredModels this) modelId of
           Some knownModel \<Rightarrow>
             Inr \<lparr> meta_id = modelId,
                   meta_owner =
                     orElse (case split modelId CHR ''/'' of [] \<Rightarrow> None | seg # _ \<Rightarrow> Some seg)
                       ''unknown'',
                   meta_name = model_name knownModel,
                   meta_description =
                     orElse (Some (model_description knownModel)) ''Replicate model'',
                   meta_category = getCategoryFromCapabilities (model_capabilities knownModel),
                   meta_capabilities = model_capabilities knownModel \<rparr>
         | None \<Rightarrow> remote modelId))"

text \<open>\<^verbatim>\<open>getReplicateClient\<close>: the SDK object is the key it authenticates with.\<close>

definition getReplicateClient :: "ReplicateProvider \<Rightarrow> error + string" where
  "getReplicateClient this =
     (case config this of
        None \<Rightarrow> Inl NoApiKey
      | Some cfg \<Rightarrow>
          (case cfg_apiKey cfg of
             None \<Rightarrow> Inl NoApiKey
           | Some k \<Rightarrow> if k = [] then Inl NoApiKey else Inr k))"

text \<open>The three wrapper classes: each holds the client, the metadata and the SDK object.
  The three create methods have one body and differ in the class they construct only; the body
  is \<open>createModel\<close>, the class its first argument.\<close>

datatype ModelWrapper =
    ReplicateTextToImageModel ReplicateClient ReplicateModelMetadata string
  | ReplicateTextToVideoModel ReplicateClient ReplicateModelMetadata string
  | ReplicateTextToAudioModel ReplicateClient ReplicateModelMetadata string

definition createModel ::
  "(ReplicateClient \<Rightarrow> ReplicateModelMetadata \<Rightarrow> string \<Rightarrow> ModelWrapper)
     \<Rightarrow> (string \<Rightarrow> error + ReplicateModelMetadata) \<Rightarrow> ReplicateProvider \<Rightarrow> string
     \<Rightarrow> error + ModelWrapper" where
  "createModel wrapper remote this modelId =
     (case client this of
        None \<Rightarrow> Inl NotConfigured
      | Some c \<Rightarrow>
          (case getModelMetadata remote this modelId of
             Inl e \<Rightarrow> Inl e
           | Inr modelMetadata \<Rightarrow>
               (case getReplicateClient this of
                  Inl e \<Rightarrow> Inl e
                | Inr replicateClient \<Rightarrow> Inr (wrapper c modelMetadata replicateClient))))"

definition createTextToImageModel ::
  "(string \<Rightarrow> error + ReplicateModelMetadata) \<Rightarrow> ReplicateProvider \<Rightarrow> string
     \<Rightarrow> error + ModelWrapper" where
  "createTextToImageModel = createModel ReplicateTextToImageModel"

definition createTextToVideoModel ::
  "(string \<Rightarrow> error + ReplicateModelMetadata) \<Rightarrow> ReplicateProvider \<Rightarrow> string
     \<Rightarrow> error + ModelWrapper" where
  "createTextToVideoModel = createModel ReplicateTextToVideoModel"

definition createTextToAudioModel ::
  "(string \<Rightarrow> error + ReplicateModelMetadata) \<Rightarrow> ReplicateProvider \<Rightarrow> string
     \<Rightarrow> error + ModelWrapper" where
  "createTextToAudioModel = createModel ReplicateTextToAudioModel"

text \<open>The resolution step of \<^verbatim>\<open>getModel\<close>: the lookup in the Map and the throw on a miss.\<close>

definition resolveModel :: "ReplicateProvider \<Rightarrow> string \<Rightarrow> error + ProviderModel" where
  "resolveModel this modelId =
     (case Map_get (discoveredModels this) modelId of
        None \<Rightarrow> Inl (ModelNotFound modelId)
      | Some model \<Rightarrow> Inr model)"

definition getModel ::
  "(string \<Rightarrow> error + ReplicateModelMetadata) \<Rightarrow> ReplicateProvider \<Rightarrow> string
     \<Rightarrow> error + ModelWrapper" where
  "getModel remote this modelId =
     (if client this = None then Inl ProviderNotConfigured
      else
        (case resolveModel this modelId of
           Inl e \<Rightarrow> Inl e
         | Inr model \<Rightarrow>
             (let capabilities = model_capabilities model
              in if TEXT_TO_IMAGE \<in> set capabilities then
                   createTextToImageModel remote this modelId
                 else if TEXT_TO_VIDEO \<in> set capabilities then
                   createTextToVideoModel remote this modelId
                 else if TEXT_TO_AUDIO \<in> set capabilities then
                   createTextToAudioModel remote this modelId
                 else createTextToImageModel remote this modelId)))"

section \<open>Background discovery: the constructor, the pending promises and their events\<close>

text \<open>
  JavaScript runs one callback at a time, so the asynchronous part of the provider is a state
  machine: the provider object together with the promises that are still pending, moved by the
  events that settle them. The 30 seconds of the timer are the event \<open>TimeoutElapsed\<close>.
\<close>

datatype promise = Pending | Fulfilled | Rejected error

record Runtime =
  provider :: ReplicateProvider
  timeoutPromise :: "promise option"
    \<comment> \<open>the promise the timer rejects; \<open>None\<close>: never created\<close>
  discoveryPromise :: "promise option"
    \<comment> \<open>the promise of performModelDiscovery, pending while it awaits \<^verbatim>\<open>client.listModels()\<close>\<close>
  background :: "promise option"
    \<comment> \<open>the promise of discoverModelsInBackground, pending while it awaits the race\<close>

text \<open>performModelDiscovery, from the answer of \<^verbatim>\<open>client.listModels()\<close> on: a rejection is
  caught and logged, a response is merged record by record
  (\<^verbatim>\<open>response.results || []\<close>).\<close>

definition performModelDiscovery :: "ReplicateProvider \<Rightarrow> error + ListResponse \<Rightarrow> ReplicateProvider" where
  "performModelDiscovery this answer =
     (case answer of
        Inl err \<Rightarrow> this
      | Inr response \<Rightarrow>
          this\<lparr> discoveredModels :=
                  foldl discoverModel (discoveredModels this)
                    (case results response of None \<Rightarrow> [] | Some ms \<Rightarrow> ms) \<rparr>)"

text \<open>discoverModelsInBackground once \<^verbatim>\<open>Promise.race\<close> has settled: a rejection is caught and
  logged, so the function returns normally either way.\<close>

definition raceSettled :: "promise \<Rightarrow> promise" where
  "raceSettled outcome =
     (case outcome of
        Rejected err \<Rightarrow> Fulfilled
      | _ \<Rightarrow> Fulfilled)"

text \<open>discoverModelsInBackground up to its \<^verbatim>\<open>await\<close>: without a client it returns at once;
  otherwise it arms the timer and calls performModelDiscovery, which (the client being there)
  sends the listing request and waits for it.\<close>

definition discoverModelsInBackground :: "ReplicateProvider \<Rightarrow> Runtime" where
  "discoverModelsInBackground this =
     (if client this = None then
        \<lparr> provider = this, timeoutPromise = None, discoveryPromise = None,
          background = Some Fulfilled \<rparr>
      else
        \<lparr> provider = this, timeoutPromise = Some Pending,
          discoveryPromise = Some Pending,
          background = Some Pending \<rparr>)"

text \<open>The constructor; its argument is \<^verbatim>\<open>process.env.REPLICATE_API_TOKEN\<close>.\<close>

definition constructor :: "string option \<Rightarrow> Runtime" where
  "constructor REPLICATE_API_TOKEN =
     (let this = \<lparr> config = None, client = None,
                   discoveredModels = initializeKnownReplicateModels [] \<rparr>
      in if truthy REPLICATE_API_TOKEN then
           (let apiKey = orElse REPLICATE_API_TOKEN [];
                replicateConfig = \<lparr> rc_apiKey = apiKey, rc_timeout = 600000, rc_retries = 2 \<rparr>
            in discoverModelsInBackground
                 (this\<lparr> client := Some (ReplicateClient replicateConfig),
                        config := Some \<lparr> cfg_apiKey = Some apiKey, cfg_timeout = None,
                                         cfg_retries = None \<rparr> \<rparr>))
         else
           \<lparr> provider = this, timeoutPromise = None, discoveryPromise = None,
             background = None \<rparr>)"

text \<open>What can happen to a constructed provider: the listing call answers or fails, the timer
  fires, or the host calls \<^verbatim>\<open>configure\<close>. An event whose promise is not pending cannot occur
  and changes nothing.\<close>

datatype event =
    ListModelsResolved ListResponse
  | ListModelsRejected error
  | TimeoutElapsed
  | ConfigureCall ProviderConfig

definition listingAnswered :: "Runtime \<Rightarrow> error + ListResponse \<Rightarrow> Runtime" where
  "listingAnswered w answer =
     (if discoveryPromise w = Some Pending then
        w\<lparr> provider := performModelDiscovery (provider w) answer,
           discoveryPromise := Some Fulfilled,
           background :=
             (if background w = Some Pending then Some (raceSettled Fulfilled)
              else background w) \<rparr>
      else w)"

fun step :: "Runtime \<Rightarrow> event \<Rightarrow> Runtime" where
  "step w (ListModelsResolved response) = listingAnswered w (Inr response)"
| "step w (ListModelsRejected err) = listingAnswered w (Inl err)"
| "step w TimeoutElapsed =
     (if timeoutPromise w = Some Pending then
        w\<lparr> timeoutPromise := Some (Rejected DiscoveryTimeout),
           background :=
             (if background w = Some Pending then Some (raceSettled (Rejected DiscoveryTimeout))
              else background w) \<rparr>
      else w)"
| "step w (ConfigureCall cfg) = w\<lparr> provider := snd (configure (provider w) cfg) \<rparr>"

definition run :: "Runtime \<Rightarrow> event list \<Rightarrow> Runtime" where
  "run w evs = foldl step w evs"

text \<open>\<^verbatim>\<open>listModels()\<close> of the specification: the getter \<^verbatim>\<open>models\<close> of the provider.\<close>

definition listModels :: "Runtime \<Rightarrow> ProviderModel list" where
  "listModels w = models (provider w)"

text \<open>The listing call has not answered in any of the events.\<close>

fun listingEvent :: "event \<Rightarrow> bool" where
  "listingEvent (ListModelsResolved response) = True"
| "listingEvent (ListModelsRejected err) = True"
| "listingEvent TimeoutElapsed = False"
| "listingEvent (ConfigureCall cfg) = False"

section \<open>Tables for stating what the classifier does\<close>

text \<open>The declared capability list of the provider (\<^verbatim>\<open>readonly capabilities\<close>).\<close>

definition capabilities :: "MediaCapability list" where
  "capabilities =
     [TEXT_TO_IMAGE, TEXT_TO_VIDEO, TEXT_TO_AUDIO, IMAGE_TO_IMAGE, IMAGE_TO_VIDEO, VIDEO_TO_VIDEO]"

text \<open>The two texts the classifier searches: the id and the description, missing ones read as
  the empty string, both in lower case.\<close>

definition lowerId :: "ModelData option \<Rightarrow> string" where
  "lowerId modelData =
     toLowerCase (orElse (case modelData of None \<Rightarrow> None | Some d \<Rightarrow> data_id d) [])"

definition lowerDescription :: "ModelData option \<Rightarrow> string" where
  "lowerDescription modelData =
     toLowerCase (orElse (case modelData of None \<Rightarrow> None | Some d \<Rightarrow> data_description d) [])"

text \<open>The trigger table as the specification words it: one list for each capability, every
  trigger looked for in the id and in the description alike.\<close>

fun specTriggers :: "MediaCapability \<Rightarrow> string list" where
  "specTriggers TEXT_TO_IMAGE =
     [''text-to-image'', ''txt2img'', ''flux'', ''sdxl'', ''stable-diffusion'',
      ''text to image'', ''generate image'']"
| "specTriggers TEXT_TO_VIDEO =
     [''text-to-video'', ''video'', ''text to video'', ''video generation'']"
| "specTriggers TEXT_TO_AUDIO = [''music'', ''audio'', ''speech'', ''tts'']"
| "specTriggers IMAGE_TO_IMAGE = [''upscale'', ''enhance'', ''restore'']"
| "specTriggers IMAGE_TO_VIDEO = [''image-to-video'', ''image to video'']"
| "specTriggers VIDEO_TO_VIDEO = []"

definition specMatches :: "MediaCapability \<Rightarrow> ModelData option \<Rightarrow> bool" where
  "specMatches c modelData =
     list_ex (\<lambda>t. str_includes (lowerId modelData) t \<or> str_includes (lowerDescription modelData) t)
       (specTriggers c)"

text \<open>The trigger table as the source has it: for each capability the substrings looked for in
  the id and those looked for in the description.\<close>

fun idTriggers :: "MediaCapability \<Rightarrow> string list" where
  "idTriggers TEXT_TO_IMAGE =
     [''text-to-image'', ''txt2img'', ''flux'', ''sdxl'', ''stable-diffusion'']"
| "idTriggers TEXT_TO_VIDEO = [''text-to-video'', ''video'']"
| "idTriggers TEXT_TO_AUDIO = [''music'', ''audio'', ''speech'', ''tts'']"
| "idTriggers IMAGE_TO_IMAGE = [''upscale'', ''enhance'', ''restore'']"
| "idTriggers IMAGE_TO_VIDEO = [''image-to-video'']"
| "idTriggers VIDEO_TO_VIDEO = []"

fun descriptionTriggers :: "MediaCapability \<Rightarrow> string list" where
  "descriptionTriggers TEXT_TO_IMAGE = [''text to image'', ''generate image'']"
| "descriptionTriggers TEXT_TO_VIDEO = [''text to video'', ''video generation'']"
| "descriptionTriggers TEXT_TO_AUDIO = [''music'', ''audio'', ''speech'']"
| "descriptionTriggers IMAGE_TO_IMAGE = [''upscale'', ''enhance'', ''restore'']"
| "descriptionTriggers IMAGE_TO_VIDEO = [''image to video'']"
| "descriptionTriggers VIDEO_TO_VIDEO = []"

definition triggered :: "MediaCapability \<Rightarrow> ModelData option \<Rightarrow> bool" where
  "triggered c modelData =
     (list_ex (str_includes (lowerId modelData)) (idTriggers c) \<or>
      list_ex (str_includes (lowerDescription modelData)) (descriptionTriggers c))"

text \<open>The trailing path segment of an id: what follows its last slash.\<close>

definition trailingSegment :: "string \<Rightarrow> string" where
  "trailingSegment s = rev (takeWhile (\<lambda>c. c \<noteq> CHR ''/'') (rev s))"

section \<open>Notions for the statements about the provider\<close>

text \<open>Every entry of a Catalog carries at least one capability.\<close>

definition classified :: "Catalog \<Rightarrow> bool" where
  "classified m = list_all (\<lambda>model. model_capabilities model \<noteq> []) (Map_values m)"

text \<open>The promise of discoverModelsInBackground was never rejected: it does not exist, is
  pending, or is fulfilled.\<close>

definition settledQuietly :: "Runtime \<Rightarrow> bool" where
  "settledQuietly w =
     (background w = None \<or> background w = Some Pending \<or> background w = Some Fulfilled)"

text \<open>The priority order of the dispatch in \<^verbatim>\<open>getModel\<close> as the specification names it, and
  the create method that belongs to each capability of that order.\<close>

definition priority :: "MediaCapability list" where
  "priority = [TEXT_TO_IMAGE, TEXT_TO_VIDEO, TEXT_TO_AUDIO]"

fun wrapperConstructor ::
  "MediaCapability \<Rightarrow> (string \<Rightarrow> error + ReplicateModelMetadata) \<Rightarrow> ReplicateProvider \<Rightarrow> string
     \<Rightarrow> error + ModelWrapper" where
  "wrapperConstructor TEXT_TO_VIDEO = createTextToVideoModel"
| "wrapperConstructor TEXT_TO_AUDIO = createTextToAudioModel"
| "wrapperConstructor c = createTextToImageModel"

text \<open>An event that supplies no credential: anything but a \<^verbatim>\<open>configure\<close> call with a key.\<close>

fun withoutCredential :: "event \<Rightarrow> bool" where
  "withoutCredential (ConfigureCall cfg) = (\<not> truthy (cfg_apiKey cfg))"
| "withoutCredential ev = True"

section \<open>Lemmas: strings\<close>

lemma str_includes_sublist: "str_includes s t \<longleftrightarrow> sublist t s"
  by (induction s) (auto simp: sublist_Cons_right)

lemma split_not_Nil: "split s sep \<noteq> []"
  by (induction s) (auto split: list.splits)

lemma split_without_sep: "sep \<notin> set s \<Longrightarrow> split s sep = [s]"
  by (induction s) auto

lemma split_with_sep: "sep \<in> set s \<Longrightarrow> tl (split s sep) \<noteq> []"
  by (induction s) (auto simp: split_not_Nil split: list.splits)

lemma takeWhile_snoc_sep:
  "takeWhile (\<lambda>c. c \<noteq> sep) (xs @ [sep]) = takeWhile (\<lambda>c. c \<noteq> sep) xs"
  by (induction xs) auto

lemma last_split: "last (split s sep) = rev (takeWhile (\<lambda>c. c \<noteq> sep) (rev s))"
proof (induction s)
  case Nil
  show ?case by simp
next
  case (Cons c cs)
  show ?case
  proof (cases "c = sep")
    case True
    then show ?thesis
      using Cons.IH by (simp add: split_not_Nil takeWhile_snoc_sep)
  next
    case False
    show ?thesis
    proof (cases "sep \<in> set cs")
      case True
      then obtain seg s2 segs where sp: "split cs sep = seg # s2 # segs"
        using split_with_sep [of sep cs] split_not_Nil [of cs sep]
        by (cases "split cs sep"; cases "tl (split cs sep)") auto
      have "takeWhile (\<lambda>c. c \<noteq> sep) (rev cs @ [c]) = takeWhile (\<lambda>c. c \<noteq> sep) (rev cs)"
        using True by (simp add: takeWhile_append) blast
      then show ?thesis using False sp Cons.IH by simp
    next
      case no: False
      then have all: "takeWhile (\<lambda>c. c \<noteq> sep) (rev cs @ [c]) = rev cs @ [c]"
        using False by (simp add: takeWhile_append)
      show ?thesis using False no by (simp add: split_without_sep all)
    qed
  qed
qed

lemma last_split_slash: "last (split s CHR ''/'') = trailingSegment s"
  by (simp add: last_split trailingSegment_def)

section \<open>Lemmas: the Map and the bootstrap\<close>

lemma Map_set_new: "\<not> Map_has m k \<Longrightarrow> Map_set m k v = m @ [(k, v)]"
  by (induction m) (auto simp: Map_has_def)

lemma Map_has_get: "Map_has m k \<longleftrightarrow> Map_get m k \<noteq> None"
  by (simp add: Map_has_def Map_get_def map_of_eq_None_iff)

lemma Map_get_append: "Map_has m k \<Longrightarrow> Map_get (m @ m') k = Map_get m k"
  by (auto simp: Map_has_def Map_get_def map_of_eq_None_iff map_add_def split: option.splits)

lemma knownModels_ids:
  "map def_id knownModels =
     [''black-forest-labs/flux-schnell'', ''black-forest-labs/flux-dev'', ''stability-ai/sdxl'',
      ''bytedance/sdxl-lightning-4step'', ''playgroundai/playground-v2.5-1024px-aesthetic'',
      ''lumalabs/dream-machine'', ''minimax/video-01'', ''genmo/mochi-1-preview'',
      ''meta/musicgen'', ''suno-ai/bark'', ''afiaka87/tortoise-tts'', ''nightmareai/real-esrgan'',
      ''tencentarc/gfpgan'', ''stability-ai/stable-video-diffusion'']"
  by (simp add: knownModels_def)

lemma knownModels_distinct: "distinct (map def_id knownModels)"
  unfolding knownModels_ids by simp

lemma foldl_setKnownModel:
  "distinct (map def_id ds) \<Longrightarrow> \<forall>d \<in> set ds. \<not> Map_has m (def_id d) \<Longrightarrow>
   foldl setKnownModel m ds =
     m @ map (\<lambda>d. (def_id d,
                 \<lparr> model_id = def_id d, model_name = def_name d,
                   model_description = def_description d,
                   model_capabilities = def_capabilities d,
                   model_parameters = knownParameters \<rparr>)) ds"
proof (induction ds arbitrary: m)
  case Nil
  show ?case by simp
next
  case (Cons d ds)
  have new: "\<not> Map_has m (def_id d)" using Cons.prems(2) by simp
  have step: "setKnownModel m d = m @ [(def_id d,
                 \<lparr> model_id = def_id d, model_name = def_name d,
                   model_description = def_description d,
                   model_capabilities = def_capabilities d,
                   model_parameters = knownParameters \<rparr>)]"
    by (simp add: setKnownModel_def Map_set_new [OF new])
  have rest: "\<forall>d' \<in> set ds. \<not> Map_has (setKnownModel m d) (def_id d')"
  proof
    fix d' assume d': "d' \<in> set ds"
    then have "def_id d' \<in> set (map def_id ds)" by simp
    then have "def_id d' \<noteq> def_id d" using Cons.prems(1) by auto
    moreover have "\<not> Map_has m (def_id d')" using Cons.prems(2) d' by simp
    ultimately show "\<not> Map_has (setKnownModel m d) (def_id d')"
      by (simp add: step Map_has_def)
  qed
  have "distinct (map def_id ds)" using Cons.prems(1) by simp
  from Cons.IH [OF this rest] show ?case by (simp add: step)
qed

lemma bootstrap_catalog:
  "initializeKnownReplicateModels [] =
     map (\<lambda>d. (def_id d,
                 \<lparr> model_id = def_id d, model_name = def_name d,
                   model_description = def_description d,
                   model_capabilities = def_capabilities d,
                   model_parameters = knownParameters \<rparr>)) knownModels"
  unfolding initializeKnownReplicateModels_def
  using foldl_setKnownModel [OF knownModels_distinct, of "[]"] by (simp add: Map_has_def)

section \<open>Lemmas: the classifier as a table\<close>

lemma push_chain:
  "(let c1 = (if b1 then [TEXT_TO_IMAGE] else []);
        c2 = (if b2 then c1 @ [TEXT_TO_VIDEO] else c1);
        c3 = (if b3 then c2 @ [TEXT_TO_AUDIO] else c2);
        c4 = (if b4 then c3 @ [IMAGE_TO_IMAGE] else c3);
        c5 = (if b5 then c4 @ [IMAGE_TO_VIDEO] else c4)
    in if length c5 = 0 then c5 @ [TEXT_TO_IMAGE] else c5) =
   (let hits = (if b1 then [TEXT_TO_IMAGE] else []) @ (if b2 then [TEXT_TO_VIDEO] else []) @
               (if b3 then [TEXT_TO_AUDIO] else []) @ (if b4 then [IMAGE_TO_IMAGE] else []) @
               (if b5 then [IMAGE_TO_VIDEO] else [])
    in if hits = [] then [TEXT_TO_IMAGE] else hits)"
  by (cases b1; cases b2; cases b3; cases b4; cases b5) (simp_all add: Let_def)

lemma triggered_simps:
  "triggered TEXT_TO_IMAGE md =
     (str_includes (lowerId md) ''text-to-image'' \<or> str_includes (lowerId md) ''txt2img'' \<or>
      str_includes (lowerId md) ''flux'' \<or> str_includes (lowerId md) ''sdxl'' \<or>
      str_includes (lowerId md) ''stable-diffusion'' \<or>
      str_includes (lowerDescription md) ''text to image'' \<or>
      str_includes (lowerDescription md) ''generate image'')"
  "triggered TEXT_TO_VIDEO md =
     (str_includes (lowerId md) ''text-to-video'' \<or> str_includes (lowerId md) ''video'' \<or>
      str_includes (lowerDescription md) ''text to video'' \<or>
      str_includes (lowerDescription md) ''video generation'')"
  "triggered TEXT_TO_AUDIO md =
     (str_includes (lowerId md) ''music'' \<or> str_includes (lowerId md) ''audio'' \<or>
      str_includes (lowerId md) ''speech'' \<or> str_includes (lowerId md) ''tts'' \<or>
      str_includes (lowerDescription md) ''music'' \<or>
      str_includes (lowerDescription md) ''audio'' \<or>
      str_includes (lowerDescription md) ''speech'')"
  "triggered IMAGE_TO_IMAGE md =
     (str_includes (lowerId md) ''upscale'' \<or> str_includes (lowerId md) ''enhance'' \<or>
      str_includes (lowerId md) ''restore'' \<or>
      str_includes (lowerDescription md) ''upscale'' \<or>
      str_includes (lowerDescription md) ''enhance'' \<or>
      str_includes (lowerDescription md) ''restore'')"
  "triggered IMAGE_TO_VIDEO md =
     (str_includes (lowerId md) ''image-to-video'' \<or>
      str_includes (lowerDescription md) ''image to video'')"
  "triggered VIDEO_TO_VIDEO md = False"
  by (simp_all add: triggered_def)

lemma filter_capabilities:
  "filter P capabilities =
     (if P TEXT_TO_IMAGE then [TEXT_TO_IMAGE] else []) @
     (if P TEXT_TO_VIDEO then [TEXT_TO_VIDEO] else []) @
     (if P TEXT_TO_AUDIO then [TEXT_TO_AUDIO] else []) @
     (if P IMAGE_TO_IMAGE then [IMAGE_TO_IMAGE] else []) @
     (if P IMAGE_TO_VIDEO then [IMAGE_TO_VIDEO] else []) @
     (if P VIDEO_TO_VIDEO then [VIDEO_TO_VIDEO] else [])"
  by (simp add: capabilities_def)

lemma infer_eq:
  "inferCapabilitiesFromModel md =
     (let hits = filter (\<lambda>c. triggered c md) capabilities
      in if hits = [] then [TEXT_TO_IMAGE] else hits)"
proof -
  have "inferCapabilitiesFromModel md =
    (let hits = (if triggered TEXT_TO_IMAGE md then [TEXT_TO_IMAGE] else []) @
                (if triggered TEXT_TO_VIDEO md then [TEXT_TO_VIDEO] else []) @
                (if triggered TEXT_TO_AUDIO md then [TEXT_TO_AUDIO] else []) @
                (if triggered IMAGE_TO_IMAGE md then [IMAGE_TO_IMAGE] else []) @
                (if triggered IMAGE_TO_VIDEO md then [IMAGE_TO_VIDEO] else [])
    in if hits = [] then [TEXT_TO_IMAGE] else hits)"
    unfolding inferCapabilitiesFromModel_def triggered_simps
      lowerId_def [symmetric] lowerDescription_def [symmetric] Let_def
    by (rule push_chain [unfolded Let_def])
  also have "\<dots> = (let hits = filter (\<lambda>c. triggered c md) capabilities
                     in if hits = [] then [TEXT_TO_IMAGE] else hits)"
    unfolding filter_capabilities triggered_simps(6) by simp
  finally show ?thesis .
qed

lemma infer_not_Nil: "inferCapabilitiesFromModel md \<noteq> []"
  by (simp add: infer_eq Let_def)

lemma not_spec_not_triggered: "\<not> specMatches c md \<Longrightarrow> \<not> triggered c md"
  by (cases c) (simp_all add: specMatches_def triggered_def)

section \<open>Lemmas: the merge and the events\<close>

lemma discoverModel_cases:
  "discoverModel m md = m \<or>
   (\<exists>i e. discoverModel m md = m @ [(i, e)] \<and> \<not> Map_has m i \<and>
          model_capabilities e = inferCapabilitiesFromModel md)"
  by (auto simp: discoverModel_def Map_set_new split: option.splits)

lemma prefix_discoverModel: "prefix m (discoverModel m md)"
  using discoverModel_cases [of m md] by auto

lemma prefix_foldl_discoverModel: "prefix m (foldl discoverModel m ds)"
proof (induction ds arbitrary: m)
  case Nil
  show ?case by simp
next
  case (Cons d ds)
  have "prefix m (discoverModel m d)" by (rule prefix_discoverModel)
  also have "prefix (discoverModel m d) (foldl discoverModel (discoverModel m d) ds)"
    by (rule Cons.IH)
  finally show ?case by simp
qed

lemma classified_discoverModel: "classified m \<Longrightarrow> classified (discoverModel m md)"
  using discoverModel_cases [of m md]
  by (auto simp: classified_def Map_values_def infer_not_Nil)

lemma classified_foldl: "classified m \<Longrightarrow> classified (foldl discoverModel m ds)"
  by (induction ds arbitrary: m) (simp_all add: classified_discoverModel)

lemma classified_bootstrap: "classified (initializeKnownReplicateModels [])"
  by (simp add: bootstrap_catalog classified_def Map_values_def knownModels_def)

lemma configure_models: "discoveredModels (snd (configure this cfg)) = discoveredModels this"
  by (simp add: configure_def Let_def)

lemma step_models:
  "discoveredModels (provider (step w ev)) = discoveredModels (provider w) \<or>
   (\<exists>ds. discoveredModels (provider (step w ev)) =
          foldl discoverModel (discoveredModels (provider w)) ds)"
  by (cases ev)
     (auto simp: listingAnswered_def performModelDiscovery_def configure_models split: sum.splits)

lemma step_prefix:
  "prefix (discoveredModels (provider w)) (discoveredModels (provider (step w ev)))"
  using step_models [of w ev] by (auto simp: prefix_foldl_discoverModel)

lemma run_prefix:
  "prefix (discoveredModels (provider w)) (discoveredModels (provider (run w evs)))"
proof (induction evs arbitrary: w)
  case Nil
  show ?case by (simp add: run_def)
next
  case (Cons ev evs)
  have "prefix (discoveredModels (provider w)) (discoveredModels (provider (step w ev)))"
    by (rule step_prefix)
  also have "prefix (discoveredModels (provider (step w ev)))
               (discoveredModels (provider (run (step w ev) evs)))"
    by (rule Cons.IH)
  finally show ?case by (simp add: run_def)
qed

lemma step_classified:
  "classified (discoveredModels (provider w)) \<Longrightarrow>
   classified (discoveredModels (provider (step w ev)))"
  using step_models [of w ev] by (auto simp: classified_foldl)

lemma run_classified:
  "classified (discoveredModels (provider w)) \<Longrightarrow>
   classified (discoveredModels (provider (run w evs)))"
  by (induction evs arbitrary: w) (simp_all add: run_def step_classified)

lemma step_quiet:
  "\<not> listingEvent ev \<Longrightarrow>
   discoveredModels (provider (step w ev)) = discoveredModels (provider w)"
  by (cases ev) (simp_all add: configure_models)

lemma run_quiet:
  "\<not> list_ex listingEvent evs \<Longrightarrow>
   discoveredModels (provider (run w evs)) = discoveredModels (provider w)"
  by (induction evs arbitrary: w) (simp_all add: run_def step_quiet)

lemma constructor_models:
  "discoveredModels (provider (constructor env)) = initializeKnownReplicateModels []"
  by (simp add: constructor_def discoverModelsInBackground_def Let_def)

lemma step_settledQuietly: "settledQuietly w \<Longrightarrow> settledQuietly (step w ev)"
  by (cases ev) (auto simp: settledQuietly_def listingAnswered_def raceSettled_def)

lemma run_settledQuietly: "settledQuietly w \<Longrightarrow> settledQuietly (run w evs)"
  by (induction evs arbitrary: w) (simp_all add: run_def step_settledQuietly)

lemma constructor_settledQuietly: "settledQuietly (constructor env)"
  by (simp add: settledQuietly_def constructor_def discoverModelsInBackground_def Let_def)

section \<open>Lemmas: reachable states of the provider\<close>

lemma bootstrap_keys:
  "map fst (initializeKnownReplicateModels []) =
     [''black-forest-labs/flux-schnell'', ''black-forest-labs/flux-dev'', ''stability-ai/sdxl'',
      ''bytedance/sdxl-lightning-4step'', ''playgroundai/playground-v2.5-1024px-aesthetic'',
      ''lumalabs/dream-machine'', ''minimax/video-01'', ''genmo/mochi-1-preview'',
      ''meta/musicgen'', ''suno-ai/bark'', ''afiaka87/tortoise-tts'', ''nightmareai/real-esrgan'',
      ''tencentarc/gfpgan'', ''stability-ai/stable-video-diffusion'']"
  by (simp add: bootstrap_catalog comp_def knownModels_ids)

lemma bootstrap_ids:
  "map model_id (Map_values (initializeKnownReplicateModels [])) =
     [''black-forest-labs/flux-schnell'', ''black-forest-labs/flux-dev'', ''stability-ai/sdxl'',
      ''bytedance/sdxl-lightning-4step'', ''playgroundai/playground-v2.5-1024px-aesthetic'',
      ''lumalabs/dream-machine'', ''minimax/video-01'', ''genmo/mochi-1-preview'',
      ''meta/musicgen'', ''suno-ai/bark'', ''afiaka87/tortoise-tts'', ''nightmareai/real-esrgan'',
      ''tencentarc/gfpgan'', ''stability-ai/stable-video-diffusion'']"
  by (simp add: bootstrap_catalog Map_values_def comp_def knownModels_ids)

lemma bootstrap_values:
  "Map_values (initializeKnownReplicateModels []) =
     map (\<lambda>d. \<lparr> model_id = def_id d, model_name = def_name d,
                 model_description = def_description d,
                 model_capabilities = def_capabilities d,
                 model_parameters = knownParameters \<rparr>) knownModels"
  by (simp add: bootstrap_catalog Map_values_def comp_def)

lemma bootstrap_length: "length (initializeKnownReplicateModels []) = 14"
  using arg_cong [OF bootstrap_keys, of length] by simp

lemma bootstrap_schema:
  "list_all (\<lambda>model. model_capabilities model \<noteq> [] \<and> model_parameters model = knownParameters)
     (Map_values (initializeKnownReplicateModels []))"
  by (simp add: bootstrap_values knownModels_def)

lemma bootstrap_flux:
  "Map_get (initializeKnownReplicateModels []) ''black-forest-labs/flux-schnell'' =
     Some \<lparr> model_id = ''black-forest-labs/flux-schnell'', model_name = ''FLUX.1 Schnell'',
            model_description = ''Fast and high-quality text-to-image generation'',
            model_capabilities = [TEXT_TO_IMAGE], model_parameters = knownParameters \<rparr>"
  by (simp add: bootstrap_catalog knownModels_def Map_get_def)

lemma step_quiet_discovery:
  "\<not> listingEvent ev \<Longrightarrow> discoveryPromise (step w ev) = discoveryPromise w"
  by (cases ev) simp_all

lemma run_quiet_discovery:
  "\<not> list_ex listingEvent evs \<Longrightarrow> discoveryPromise (run w evs) = discoveryPromise w"
  by (induction evs arbitrary: w) (simp_all add: run_def step_quiet_discovery)

lemma step_fulfilled: "background w = Some Fulfilled \<Longrightarrow> background (step w ev) = Some Fulfilled"
  by (cases ev) (simp_all add: listingAnswered_def)

lemma run_fulfilled: "background w = Some Fulfilled \<Longrightarrow> background (run w evs) = Some Fulfilled"
  by (induction evs arbitrary: w) (simp_all add: run_def step_fulfilled)

lemma constructor_started:
  "truthy env \<Longrightarrow>
   timeoutPromise (constructor env) = Some Pending \<and>
   discoveryPromise (constructor env) = Some Pending \<and>
   background (constructor env) = Some Pending \<and>
   client (provider (constructor env)) \<noteq> None"
  by (simp add: constructor_def discoverModelsInBackground_def Let_def)

lemma constructor_idle:
  "\<not> truthy env \<Longrightarrow> client (provider (constructor env)) = None"
  by (simp add: constructor_def)

lemma run_Cons: "run w (ev # evs) = run (step w ev) evs"
  by (simp add: run_def)

lemma run_snoc: "run w (evs @ [ev]) = step (run w evs) ev"
  by (simp add: run_def)

lemma timeout_first:
  assumes "truthy env"
  shows "background (step (constructor env) TimeoutElapsed) = Some Fulfilled"
    and "discoveryPromise (step (constructor env) TimeoutElapsed) = Some Pending"
    and "provider (step (constructor env) TimeoutElapsed) = provider (constructor env)"
  using constructor_started [OF assms] by (simp_all add: raceSettled_def)

lemma late_answer:
  assumes "truthy env" and "\<not> list_ex listingEvent evs"
  shows "discoveredModels (provider (run (constructor env)
             (TimeoutElapsed # evs @ [ListModelsResolved response]))) =
         foldl discoverModel (initializeKnownReplicateModels [])
           (case results response of None \<Rightarrow> [] | Some ms \<Rightarrow> ms)"
proof -
  let ?w = "run (step (constructor env) TimeoutElapsed) evs"
  have pend: "discoveryPromise ?w = Some Pending"
    using run_quiet_discovery [OF assms(2)] timeout_first(2) [OF assms(1)] by simp
  have cat: "discoveredModels (provider ?w) = initializeKnownReplicateModels []"
    using run_quiet [OF assms(2)] timeout_first(3) [OF assms(1)] by (simp add: constructor_models)
  have "run (constructor env) (TimeoutElapsed # evs @ [ListModelsResolved response]) =
        step ?w (ListModelsResolved response)"
    by (simp add: run_def)
  then show ?thesis
    using pend cat by (simp add: listingAnswered_def performModelDiscovery_def)
qed

lemma step_client_None:
  "client (provider w) = None \<Longrightarrow> withoutCredential ev \<Longrightarrow> client (provider (step w ev)) = None"
  by (cases ev)
     (auto simp: listingAnswered_def performModelDiscovery_def configure_def Let_def split: sum.splits)

lemma run_client_None:
  "client (provider w) = None \<Longrightarrow> list_all withoutCredential evs \<Longrightarrow>
   client (provider (run w evs)) = None"
  by (induction evs arbitrary: w) (simp_all add: run_def step_client_None)

lemma reachable_flux:
  "Map_get (discoveredModels (provider (run (constructor env) evs)))
     ''black-forest-labs/flux-schnell'' =
     Some \<lparr> model_id = ''black-forest-labs/flux-schnell'', model_name = ''FLUX.1 Schnell'',
            model_description = ''Fast and high-quality text-to-image generation'',
            model_capabilities = [TEXT_TO_IMAGE], model_parameters = knownParameters \<rparr>"
proof -
  obtain rest where "discoveredModels (provider (run (constructor env) evs)) =
                     initializeKnownReplicateModels [] @ rest"
    using run_prefix [of "constructor env" evs] by (auto simp: constructor_models prefix_def)
  moreover have "Map_has (initializeKnownReplicateModels []) ''black-forest-labs/flux-schnell''"
    by (simp add: Map_has_get bootstrap_flux)
  ultimately show ?thesis by (simp add: Map_get_append bootstrap_flux)
qed

lemma orElse_given: "x = Some s \<Longrightarrow> s \<noteq> [] \<Longrightarrow> orElse x d = s"
  by (simp add: orElse_def)

lemma orElse_missing: "\<not> truthy x \<Longrightarrow> orElse x d = d"
  by (auto simp: orElse_def truthy_def split: option.splits)

lemma fallback_name:
  "orElse (pop (split i CHR ''/'')) i = (if trailingSegment i = [] then i else trailingSegment i)"
  by (simp add: orElse_def pop_def split_not_Nil last_split_slash)

lemma discoverModel_new:
  assumes "data_id d = Some i" and "i \<noteq> []" and "\<not> Map_has m i"
  shows "discoverModel m (Some d) =
           m @ [(i, \<lparr> model_id = i,
                      model_name = orElse (data_name d) (orElse (pop (split i CHR ''/'')) i),
                      model_description = orElse (data_description d) (''Replicate model: '' @ i),
                      model_capabilities = inferCapabilitiesFromModel (Some d),
                      model_parameters =
                        (case data_parameters d of None \<Rightarrow> [] | Some ps \<Rightarrow> ps) \<rparr>)]"
  using assms by (simp add: discoverModel_def Map_set_new)

section \<open>Lemmas: getModel\<close>

lemma createModel_not_ModelNotFound:
  "client this \<noteq> None \<Longrightarrow> Map_has (discoveredModels this) modelId \<Longrightarrow>
   createModel wrapper remote this modelId \<noteq> Inl (ModelNotFound modelId)"
  by (auto simp: createModel_def getModelMetadata_def getReplicateClient_def Map_has_get
           split: option.splits sum.splits if_splits)

lemma getModel_found:
  "client this \<noteq> None \<Longrightarrow> Map_get (discoveredModels this) modelId = Some model \<Longrightarrow>
   getModel remote this modelId =
     (if TEXT_TO_IMAGE \<in> set (model_capabilities model) then
        createTextToImageModel remote this modelId
      else if TEXT_TO_VIDEO \<in> set (model_capabilities model) then
        createTextToVideoModel remote this modelId
      else if TEXT_TO_AUDIO \<in> set (model_capabilities model) then
        createTextToAudioModel remote this modelId
      else createTextToImageModel remote this modelId)"
  by (cases "client this") (simp_all add: getModel_def resolveModel_def Let_def)

section \<open>The claims\<close>

text \<open>
  C1 (as amended). A record of the listing that is null, has no id or has the empty id is
  skipped. A record whose id is a key of the Catalog leaves the Catalog as it is. Any other
  record appends one entry under its id: the name is the given non-empty name, else the
  trailing path segment of the id, else (when that segment is empty) the id itself; the
  description is the given non-empty description, else "Replicate model: " followed by the id;
  the parameters are the given ones, else the empty mapping.
\<close>

theorem discoverModel_merge_rule:
  "(\<not> truthy (case modelData of None \<Rightarrow> None | Some d \<Rightarrow> data_id d) \<longrightarrow>
      discoverModel m modelData = m) \<and>
   (modelData = Some d \<and> data_id d = Some i \<and> i \<noteq> [] \<and> Map_has m i \<longrightarrow>
      discoverModel m modelData = m) \<and>
   (modelData = Some d \<and> data_id d = Some i \<and> i \<noteq> [] \<and> \<not> Map_has m i \<longrightarrow>
      (\<exists>e. discoverModel m modelData = m @ [(i, e)] \<and>
           model_id e = i \<and>
           (\<forall>n. data_name d = Some n \<and> n \<noteq> [] \<longrightarrow> model_name e = n) \<and>
           (\<not> truthy (data_name d) \<longrightarrow>
              model_name e = (if trailingSegment i = [] then i else trailingSegment i)) \<and>
           (\<forall>t. data_description d = Some t \<and> t \<noteq> [] \<longrightarrow> model_description e = t) \<and>
           (\<not> truthy (data_description d) \<longrightarrow>
              model_description e = ''Replicate model: '' @ i) \<and>
           model_capabilities e = inferCapabilitiesFromModel modelData \<and>
           (\<forall>ps. data_parameters d = Some ps \<longrightarrow> model_parameters e = ps) \<and>
           (data_parameters d = None \<longrightarrow> model_parameters e = [])))"
proof (intro conjI impI)
  assume "\<not> truthy (case modelData of None \<Rightarrow> None | Some d \<Rightarrow> data_id d)"
  then show "discoverModel m modelData = m"
    by (auto simp: discoverModel_def truthy_def split: option.splits)
next
  assume "modelData = Some d \<and> data_id d = Some i \<and> i \<noteq> [] \<and> Map_has m i"
  then show "discoverModel m modelData = m"
    by (simp add: discoverModel_def)
next
  assume a: "modelData = Some d \<and> data_id d = Some i \<and> i \<noteq> [] \<and> \<not> Map_has m i"
  then have new: "discoverModel m modelData =
           m @ [(i, \<lparr> model_id = i,
                      model_name = orElse (data_name d) (orElse (pop (split i CHR ''/'')) i),
                      model_description = orElse (data_description d) (''Replicate model: '' @ i),
                      model_capabilities = inferCapabilitiesFromModel modelData,
                      model_parameters =
                        (case data_parameters d of None \<Rightarrow> [] | Some ps \<Rightarrow> ps) \<rparr>)]"
    using discoverModel_new [of d i m] by simp
  show "\<exists>e. discoverModel m modelData = m @ [(i, e)] \<and>
           model_id e = i \<and>
           (\<forall>n. data_name d = Some n \<and> n \<noteq> [] \<longrightarrow> model_name e = n) \<and>
           (\<not> truthy (data_name d) \<longrightarrow>
              model_name e = (if trailingSegment i = [] then i else trailingSegment i)) \<and>
           (\<forall>t. data_description d = Some t \<and> t \<noteq> [] \<longrightarrow> model_description e = t) \<and>
           (\<not> truthy (data_description d) \<longrightarrow>
              model_description e = ''Replicate model: '' @ i) \<and>
           model_capabilities e = inferCapabilitiesFromModel modelData \<and>
           (\<forall>ps. data_parameters d = Some ps \<longrightarrow> model_parameters e = ps) \<and>
           (data_parameters d = None \<longrightarrow> model_parameters e = [])"
    unfolding new
    by (rule exI [of _ "\<lparr> model_id = i,
                      model_name = orElse (data_name d) (orElse (pop (split i CHR ''/'')) i),
                      model_description = orElse (data_description d) (''Replicate model: '' @ i),
                      model_capabilities = inferCapabilitiesFromModel modelData,
                      model_parameters =
                        (case data_parameters d of None \<Rightarrow> [] | Some ps \<Rightarrow> ps) \<rparr>"])
       (simp add: orElse_given orElse_missing fallback_name)
qed

theorem discoverModel_merge_rule_witness:
  "discoverModel (initializeKnownReplicateModels [])
     (Some \<lparr> data_id = None, data_name = Some ''Nameless'', data_description = None,
             data_parameters = None \<rparr>) = initializeKnownReplicateModels [] \<and>
   discoverModel (initializeKnownReplicateModels [])
     (Some \<lparr> data_id = Some ''black-forest-labs/flux-schnell'', data_name = Some ''Flux Fast'',
             data_description = None, data_parameters = None \<rparr>) =
     initializeKnownReplicateModels [] \<and>
   (\<exists>e. discoverModel (initializeKnownReplicateModels [])
          (Some \<lparr> data_id = Some ''acme/widget-123'', data_name = None,
                  data_description = None, data_parameters = None \<rparr>) =
          initializeKnownReplicateModels [] @ [(''acme/widget-123'', e)] \<and>
        model_id e = ''acme/widget-123'' \<and> model_name e = ''widget-123'' \<and>
        model_description e = ''Replicate model: acme/widget-123'' \<and>
        model_capabilities e = [TEXT_TO_IMAGE] \<and> model_parameters e = [])"
proof -
  let ?m = "initializeKnownReplicateModels []"
  let ?d1 = "\<lparr> data_id = None, data_name = Some ''Nameless'', data_description = None,
               data_parameters = None \<rparr>"
  let ?d2 = "\<lparr> data_id = Some ''black-forest-labs/flux-schnell'', data_name = Some ''Flux Fast'',
               data_description = None, data_parameters = None \<rparr>"
  let ?d3 = "\<lparr> data_id = Some ''acme/widget-123'', data_name = None,
               data_description = None, data_parameters = None \<rparr>"
  have known: "Map_has ?m ''black-forest-labs/flux-schnell''"
    by (simp add: Map_has_def bootstrap_keys)
  have new: "\<not> Map_has ?m ''acme/widget-123''"
    by (simp add: Map_has_def bootstrap_keys)
  have seg: "trailingSegment ''acme/widget-123'' = ''widget-123''"
    by (simp add: trailingSegment_def)
  have caps: "inferCapabilitiesFromModel (Some ?d3) = [TEXT_TO_IMAGE]"
    by code_simp
  have one: "discoverModel ?m (Some ?d1) = ?m"
    using discoverModel_merge_rule [of "Some ?d1" ?m ?d1 "[]"] by (simp add: truthy_def)
  have two: "discoverModel ?m (Some ?d2) = ?m"
    using discoverModel_merge_rule [of "Some ?d2" ?m ?d2 "''black-forest-labs/flux-schnell''"] known
    by simp
  have three: "\<exists>e. discoverModel ?m (Some ?d3) = ?m @ [(''acme/widget-123'', e)] \<and>
        model_id e = ''acme/widget-123'' \<and> model_name e = ''widget-123'' \<and>
        model_description e = ''Replicate model: acme/widget-123'' \<and>
        model_capabilities e = [TEXT_TO_IMAGE] \<and> model_parameters e = []"
    using discoverModel_merge_rule [of "Some ?d3" ?m ?d3 "''acme/widget-123''"] new
    by (simp add: truthy_def seg caps)
  from one two three show ?thesis by simp
qed

theorem discoverModel_trailing_slash_counterexample:
  "map model_name (Map_values (discoverModel []
       (Some \<lparr> data_id = Some ''acme/'', data_name = None, data_description = None,
               data_parameters = None \<rparr>))) = [''acme/''] \<and>
   trailingSegment ''acme/'' \<noteq> ''acme/''"
  by (simp add: discoverModel_def Map_has_def Map_values_def orElse_def pop_def trailingSegment_def)

text \<open>
  C2 (as amended). The classifier includes a capability exactly when one of the substrings the
  source lists for the id of that capability occurs in the lower-cased id, or one of the
  substrings it lists for the description occurs in the lower-cased description (the two lists
  differ: for instance "flux" and "tts" are looked for in the id only, "generate image" in the
  description only), or, for text-to-image, when no capability is triggered at all. All
  triggered capabilities are included.
\<close>

theorem inferCapabilities_membership:
  "c \<in> set (inferCapabilitiesFromModel modelData) \<longleftrightarrow>
     triggered c modelData \<or>
     (c = TEXT_TO_IMAGE \<and> \<not> list_ex (\<lambda>c'. triggered c' modelData) capabilities)"
proof -
  have all: "c \<in> set capabilities" by (cases c) (simp_all add: capabilities_def)
  have empty: "filter (\<lambda>c'. triggered c' modelData) capabilities = [] \<longleftrightarrow>
               \<not> list_ex (\<lambda>c'. triggered c' modelData) capabilities"
    by (simp add: filter_empty_conv list_ex_iff)
  show ?thesis
    using all by (auto simp: infer_eq Let_def empty list_ex_iff)
qed

theorem inferCapabilities_membership_witness:
  "triggered TEXT_TO_AUDIO
     (Some \<lparr> data_id = Some ''someone/Music-Video-Generator'', data_name = None,
             data_description = None, data_parameters = None \<rparr>) \<and>
   TEXT_TO_AUDIO \<in> set (inferCapabilitiesFromModel
     (Some \<lparr> data_id = Some ''someone/Music-Video-Generator'', data_name = None,
             data_description = None, data_parameters = None \<rparr>))"
proof -
  have hit: "triggered TEXT_TO_AUDIO
     (Some \<lparr> data_id = Some ''someone/Music-Video-Generator'', data_name = None,
             data_description = None, data_parameters = None \<rparr>)"
    by code_simp
  then show ?thesis
    using inferCapabilities_membership [of TEXT_TO_AUDIO
      "Some \<lparr> data_id = Some ''someone/Music-Video-Generator'', data_name = None,
              data_description = None, data_parameters = None \<rparr>"]
    by simp
qed

theorem inferCapabilities_tts_counterexample:
  "specMatches TEXT_TO_AUDIO
     (Some \<lparr> data_id = Some ''acme/voice'', data_name = None,
             data_description = Some ''a tts model'', data_parameters = None \<rparr>) \<and>
   TEXT_TO_AUDIO \<notin> set (inferCapabilitiesFromModel
     (Some \<lparr> data_id = Some ''acme/voice'', data_name = None,
             data_description = Some ''a tts model'', data_parameters = None \<rparr>))"
  by code_simp

text \<open>
  C3 (as amended). With a credential in the environment, once the timer has fired first,
  discoverModelsInBackground has returned normally, and as long as the listing call has not
  answered, listModels() is the bootstrap list (its size the bootstrap size). An answer of the
  listing call that arrives after the timeout is not discarded: its records are merged into
  the Catalog exactly as a timely answer would be. No run of events rejects the promise of
  discoverModelsInBackground, so no exception escapes the construction sequence.
\<close>

theorem timeout_then_late_listing:
  "truthy env \<Longrightarrow> \<not> list_ex listingEvent evs \<Longrightarrow>
     background (run (constructor env) (TimeoutElapsed # evs)) = Some Fulfilled \<and>
     listModels (run (constructor env) (TimeoutElapsed # evs)) = listModels (constructor env) \<and>
     length (listModels (run (constructor env) (TimeoutElapsed # evs))) = length knownModels \<and>
     discoveredModels (provider (run (constructor env)
         (TimeoutElapsed # evs @ [ListModelsResolved response]))) =
       foldl discoverModel (discoveredModels (provider (constructor env)))
         (case results response of None \<Rightarrow> [] | Some ms \<Rightarrow> ms) \<and>
     settledQuietly (run (constructor env) evs')"
proof -
  assume env: "truthy env" and quiet: "\<not> list_ex listingEvent evs"
  have bg: "background (run (constructor env) (TimeoutElapsed # evs)) = Some Fulfilled"
    using run_fulfilled [OF timeout_first(1) [OF env]] by (simp add: run_Cons)
  have quiet': "\<not> list_ex listingEvent (TimeoutElapsed # evs)"
    using quiet by simp
  have same: "listModels (run (constructor env) (TimeoutElapsed # evs)) = listModels (constructor env)"
    using run_quiet [OF quiet'] by (simp add: listModels_def models_def)
  have len: "length (listModels (constructor env)) = length knownModels"
    by (simp add: listModels_def models_def constructor_models bootstrap_values)
  have late: "discoveredModels (provider (run (constructor env)
         (TimeoutElapsed # evs @ [ListModelsResolved response]))) =
       foldl discoverModel (discoveredModels (provider (constructor env)))
         (case results response of None \<Rightarrow> [] | Some ms \<Rightarrow> ms)"
    using late_answer [OF env quiet] by (simp add: constructor_models)
  have calm: "settledQuietly (run (constructor env) evs')"
    by (rule run_settledQuietly [OF constructor_settledQuietly])
  from bg same len late calm show ?thesis by simp
qed

theorem timeout_then_late_listing_witness:
  "truthy (Some ''r8_token'') \<and> \<not> list_ex listingEvent [ConfigureCall \<lparr> cfg_apiKey = None, cfg_timeout = None, cfg_retries = None \<rparr>] \<and>
   background (run (constructor (Some ''r8_token''))
     [TimeoutElapsed, ConfigureCall \<lparr> cfg_apiKey = None, cfg_timeout = None, cfg_retries = None \<rparr>]) = Some Fulfilled \<and>
   length (listModels (run (constructor (Some ''r8_token''))
     [TimeoutElapsed, ConfigureCall \<lparr> cfg_apiKey = None, cfg_timeout = None, cfg_retries = None \<rparr>])) = 14"
proof -
  have env: "truthy (Some ''r8_token'')" by (simp add: truthy_def)
  have quiet: "\<not> list_ex listingEvent
                 [ConfigureCall \<lparr> cfg_apiKey = None, cfg_timeout = None, cfg_retries = None \<rparr>]"
    by simp
  have n: "length knownModels = 14"
    using arg_cong [OF knownModels_ids, of length] by simp
  note t = timeout_then_late_listing [OF env quiet, of "\<lparr> results = None \<rparr>" "[]"]
  from t have bg: "background (run (constructor (Some ''r8_token''))
     [TimeoutElapsed, ConfigureCall \<lparr> cfg_apiKey = None, cfg_timeout = None, cfg_retries = None \<rparr>]) = Some Fulfilled"
    by (rule conjunct1)
  from t have len: "length (listModels (run (constructor (Some ''r8_token''))
     [TimeoutElapsed, ConfigureCall \<lparr> cfg_apiKey = None, cfg_timeout = None, cfg_retries = None \<rparr>])) = length knownModels"
    by (elim conjE)
  show ?thesis
    using env quiet bg len n by simp
qed

theorem late_listing_counterexample:
  "background (run (constructor (Some ''r8_token'')) [TimeoutElapsed]) = Some Fulfilled \<and>
   length (listModels (run (constructor (Some ''r8_token'')) [TimeoutElapsed])) = 14 \<and>
   length (listModels (run (constructor (Some ''r8_token''))
     [TimeoutElapsed,
      ListModelsResolved \<lparr> results = Some [Some \<lparr> data_id = Some ''acme/widget-123'',
        data_name = None, data_description = None, data_parameters = None \<rparr>] \<rparr>])) = 15"
proof -
  have env: "truthy (Some ''r8_token'')" by (simp add: truthy_def)
  have bg: "background (run (constructor (Some ''r8_token'')) [TimeoutElapsed]) = Some Fulfilled"
    using timeout_first(1) [OF env] by (simp add: run_def)
  have before: "length (listModels (run (constructor (Some ''r8_token'')) [TimeoutElapsed])) = 14"
    using timeout_first(3) [OF env]
    by (simp add: run_def listModels_def models_def Map_values_def constructor_models
          bootstrap_length)
  have new: "\<not> Map_has (initializeKnownReplicateModels []) ''acme/widget-123''"
    by (simp add: Map_has_def bootstrap_keys)
  have "discoveredModels (provider (run (constructor (Some ''r8_token''))
     ([TimeoutElapsed] @ [] @
      [ListModelsResolved \<lparr> results = Some [Some \<lparr> data_id = Some ''acme/widget-123'',
        data_name = None, data_description = None, data_parameters = None \<rparr>] \<rparr>]))) =
     discoverModel (initializeKnownReplicateModels [])
       (Some \<lparr> data_id = Some ''acme/widget-123'',
        data_name = None, data_description = None, data_parameters = None \<rparr>)"
    using late_answer [OF env, of "[]"] by simp
  then have after: "length (listModels (run (constructor (Some ''r8_token''))
     [TimeoutElapsed,
      ListModelsResolved \<lparr> results = Some [Some \<lparr> data_id = Some ''acme/widget-123'',
        data_name = None, data_description = None, data_parameters = None \<rparr>] \<rparr>])) = 15"
    using new
    by (simp add: listModels_def models_def Map_values_def discoverModel_new bootstrap_length)
  from bg before after show ?thesis by simp
qed

text \<open>
  C4. The claim holds for the client but not for the stored configuration: \<^verbatim>\<open>configure\<close>
  assigns \<^verbatim>\<open>this.config\<close> before it tests the key. A provider configured from the
  environment, called with a configuration without key, throws, keeps its client and has lost
  its key: \<^verbatim>\<open>getReplicateClient\<close>, which succeeded before the failed call, fails after it.
\<close>

theorem configure_without_key_overwrites_config:
  "(let this = provider (constructor (Some ''r8_token''));
        failed = configure this \<lparr> cfg_apiKey = None, cfg_timeout = None, cfg_retries = None \<rparr>
    in fst failed = Some TokenRequired \<and>
       config this =
         Some \<lparr> cfg_apiKey = Some ''r8_token'', cfg_timeout = None, cfg_retries = None \<rparr> \<and>
       config (snd failed) =
         Some \<lparr> cfg_apiKey = None, cfg_timeout = None, cfg_retries = None \<rparr> \<and>
       client (snd failed) = client this \<and>
       getReplicateClient this = Inr ''r8_token'' \<and>
       getReplicateClient (snd failed) = Inl NoApiKey \<and>
       \<not> isl (getModel (\<lambda>i. Inl (TransportError [])) this ''black-forest-labs/flux-schnell'') \<and>
       getModel (\<lambda>i. Inl (TransportError [])) (snd failed) ''black-forest-labs/flux-schnell'' =
         Inl NoApiKey)"
  by (simp add: Let_def constructor_def discoverModelsInBackground_def configure_def truthy_def
        orElse_def getReplicateClient_def getModel_def resolveModel_def bootstrap_flux
        createTextToImageModel_def createModel_def getModelMetadata_def)

text \<open>
  C5. The classifier never returns the empty list; when none of the trigger substrings of the
  specification's table occurs in the id or in the description, the result is exactly
  [text-to-image]; and every entry of the Catalog of a constructed provider, after any run of
  events, carries at least one capability.
\<close>

theorem capabilities_never_empty:
  "inferCapabilitiesFromModel modelData \<noteq> [] \<and>
   (\<not> list_ex (\<lambda>c. specMatches c modelData) capabilities \<longrightarrow>
      inferCapabilitiesFromModel modelData = [TEXT_TO_IMAGE]) \<and>
   list_all (\<lambda>model. model_capabilities model \<noteq> []) (listModels (run (constructor env) evs))"
proof (intro conjI impI)
  show "inferCapabilitiesFromModel modelData \<noteq> []" by (rule infer_not_Nil)
next
  assume "\<not> list_ex (\<lambda>c. specMatches c modelData) capabilities"
  then have "\<forall>c \<in> set capabilities. \<not> triggered c modelData"
    by (auto simp: list_ex_iff dest: not_spec_not_triggered)
  then have "filter (\<lambda>c. triggered c modelData) capabilities = []"
    by (simp add: filter_empty_conv)
  then show "inferCapabilitiesFromModel modelData = [TEXT_TO_IMAGE]"
    by (simp add: infer_eq)
next
  have "classified (discoveredModels (provider (run (constructor env) evs)))"
    by (rule run_classified) (simp add: constructor_models classified_bootstrap)
  then show "list_all (\<lambda>model. model_capabilities model \<noteq> [])
               (listModels (run (constructor env) evs))"
    by (simp add: classified_def listModels_def models_def)
qed

theorem capabilities_never_empty_witness:
  "\<not> list_ex (\<lambda>c. specMatches c
        (Some \<lparr> data_id = Some ''acme/widget-123'', data_name = None,
                data_description = None, data_parameters = None \<rparr>)) capabilities \<and>
   inferCapabilitiesFromModel
     (Some \<lparr> data_id = Some ''acme/widget-123'', data_name = None,
             data_description = None, data_parameters = None \<rparr>) = [TEXT_TO_IMAGE] \<and>
   list_all (\<lambda>model. model_capabilities model \<noteq> [])
     (listModels (run (constructor (Some ''r8_token''))
        [ListModelsResolved \<lparr> results = Some [Some \<lparr> data_id = Some ''acme/widget-123'',
           data_name = None, data_description = None, data_parameters = None \<rparr>] \<rparr>]))"
proof -
  have none: "\<not> list_ex (\<lambda>c. specMatches c
        (Some \<lparr> data_id = Some ''acme/widget-123'', data_name = None,
                data_description = None, data_parameters = None \<rparr>)) capabilities"
    by code_simp
  note t = capabilities_never_empty [of
      "Some \<lparr> data_id = Some ''acme/widget-123'', data_name = None,
              data_description = None, data_parameters = None \<rparr>"
      "Some ''r8_token''"
      "[ListModelsResolved \<lparr> results = Some [Some \<lparr> data_id = Some ''acme/widget-123'',
           data_name = None, data_description = None, data_parameters = None \<rparr>] \<rparr>]"]
  from t none show ?thesis by blast
qed

text \<open>
  C6. For every environment, after construction and after any events in which the listing
  call has not answered, listModels() is exactly the list of the fourteen hard-coded entries,
  in their order, each with its own capabilities (never empty) and the shared parameter schema;
  the size of the Catalog is the length of the fixed list.
\<close>

theorem bootstrap_exact:
  "\<not> list_ex listingEvent evs \<Longrightarrow>
     listModels (run (constructor env) evs) =
       map (\<lambda>d. \<lparr> model_id = def_id d, model_name = def_name d,
                   model_description = def_description d,
                   model_capabilities = def_capabilities d,
                   model_parameters = knownParameters \<rparr>) knownModels \<and>
     map model_id (listModels (run (constructor env) evs)) =
       [''black-forest-labs/flux-schnell'', ''black-forest-labs/flux-dev'', ''stability-ai/sdxl'',
        ''bytedance/sdxl-lightning-4step'', ''playgroundai/playground-v2.5-1024px-aesthetic'',
        ''lumalabs/dream-machine'', ''minimax/video-01'', ''genmo/mochi-1-preview'',
        ''meta/musicgen'', ''suno-ai/bark'', ''afiaka87/tortoise-tts'',
        ''nightmareai/real-esrgan'', ''tencentarc/gfpgan'',
        ''stability-ai/stable-video-diffusion''] \<and>
     length (discoveredModels (provider (run (constructor env) evs))) = length knownModels \<and>
     length (listModels (run (constructor env) evs)) = length knownModels \<and>
     length knownModels = 14 \<and>
     list_all (\<lambda>model. model_capabilities model \<noteq> [] \<and>
                        model_parameters model = knownParameters)
       (listModels (run (constructor env) evs)) \<and>
     map fst knownParameters =
       [''prompt'', ''width'', ''height'', ''num_inference_steps'', ''guidance_scale'']"
proof -
  assume quiet: "\<not> list_ex listingEvent evs"
  have cat: "discoveredModels (provider (run (constructor env) evs)) =
             initializeKnownReplicateModels []"
    using run_quiet [OF quiet] by (simp add: constructor_models)
  have n: "length knownModels = 14"
    using arg_cong [OF knownModels_ids, of length] by simp
  have schema: "list_all (\<lambda>model. model_capabilities model \<noteq> [] \<and>
                        model_parameters model = knownParameters)
       (listModels (run (constructor env) evs))"
    using bootstrap_schema by (simp add: listModels_def models_def cat)
  have ids: "map model_id (listModels (run (constructor env) evs)) =
       [''black-forest-labs/flux-schnell'', ''black-forest-labs/flux-dev'', ''stability-ai/sdxl'',
        ''bytedance/sdxl-lightning-4step'', ''playgroundai/playground-v2.5-1024px-aesthetic'',
        ''lumalabs/dream-machine'', ''minimax/video-01'', ''genmo/mochi-1-preview'',
        ''meta/musicgen'', ''suno-ai/bark'', ''afiaka87/tortoise-tts'',
        ''nightmareai/real-esrgan'', ''tencentarc/gfpgan'',
        ''stability-ai/stable-video-diffusion'']"
    using bootstrap_ids by (simp add: listModels_def models_def cat)
  have vals: "listModels (run (constructor env) evs) =
       map (\<lambda>d. \<lparr> model_id = def_id d, model_name = def_name d,
                   model_description = def_description d,
                   model_capabilities = def_capabilities d,
                   model_parameters = knownParameters \<rparr>) knownModels"
    by (simp add: listModels_def models_def cat bootstrap_values)
  have len1: "length (discoveredModels (provider (run (constructor env) evs))) = length knownModels"
    by (simp add: cat bootstrap_length n)
  have len2: "length (listModels (run (constructor env) evs)) = length knownModels"
    by (simp add: vals)
  have names: "map fst knownParameters =
       [''prompt'', ''width'', ''height'', ''num_inference_steps'', ''guidance_scale'']"
    by (simp add: knownParameters_def)
  show ?thesis
    by (intro conjI) (rule vals ids len1 len2 n schema names)+
qed

theorem bootstrap_exact_witness:
  "\<not> list_ex listingEvent [TimeoutElapsed] \<and>
   length (listModels (run (constructor (Some ''r8_token'')) [TimeoutElapsed])) = 14 \<and>
   list_all (\<lambda>model. model_capabilities model \<noteq> [] \<and>
                      model_parameters model = knownParameters)
     (listModels (run (constructor (Some ''r8_token'')) [TimeoutElapsed]))"
proof -
  have quiet: "\<not> list_ex listingEvent [TimeoutElapsed]" by simp
  note t = bootstrap_exact [OF quiet, of "Some ''r8_token''"]
  from t have len: "length (listModels (run (constructor (Some ''r8_token'')) [TimeoutElapsed])) =
                    length knownModels"
    by (elim conjE)
  from t have n: "length knownModels = 14" by (elim conjE)
  from t have schema: "list_all (\<lambda>model. model_capabilities model \<noteq> [] \<and>
                      model_parameters model = knownParameters)
     (listModels (run (constructor (Some ''r8_token'')) [TimeoutElapsed]))"
    by (elim conjE)
  from quiet len n schema show ?thesis by simp
qed

text \<open>
  C7. The resolution step fails, with the not-found error for the requested id, exactly when
  the id is not a key of the Catalog, and so does \<^verbatim>\<open>getModel\<close> of a configured provider. The
  bootstrap id black-forest-labs/flux-schnell resolves in every state a constructed provider
  can reach, to an entry whose capabilities include text-to-image.
\<close>

theorem resolveModel_not_found_iff:
  "(resolveModel this modelId = Inl (ModelNotFound modelId) \<longleftrightarrow>
      \<not> Map_has (discoveredModels this) modelId) \<and>
   (isl (resolveModel this modelId) \<longleftrightarrow> \<not> Map_has (discoveredModels this) modelId) \<and>
   (client this \<noteq> None \<longrightarrow>
      (getModel remote this modelId = Inl (ModelNotFound modelId) \<longleftrightarrow>
         \<not> Map_has (discoveredModels this) modelId)) \<and>
   (\<exists>model. resolveModel (provider (run (constructor env) evs))
               ''black-forest-labs/flux-schnell'' = Inr model \<and>
            TEXT_TO_IMAGE \<in> set (model_capabilities model))"
proof (intro conjI impI)
  show "resolveModel this modelId = Inl (ModelNotFound modelId) \<longleftrightarrow>
          \<not> Map_has (discoveredModels this) modelId"
    by (simp add: resolveModel_def Map_has_get split: option.splits)
next
  show "isl (resolveModel this modelId) \<longleftrightarrow> \<not> Map_has (discoveredModels this) modelId"
    by (simp add: resolveModel_def Map_has_get split: option.splits)
next
  assume cl: "client this \<noteq> None"
  show "getModel remote this modelId = Inl (ModelNotFound modelId) \<longleftrightarrow>
          \<not> Map_has (discoveredModels this) modelId"
  proof (cases "Map_get (discoveredModels this) modelId")
    case None
    then show ?thesis using cl by (simp add: getModel_def resolveModel_def Map_has_get)
  next
    case (Some model)
    then have has: "Map_has (discoveredModels this) modelId" by (simp add: Map_has_get)
    show ?thesis
      using has createModel_not_ModelNotFound [OF cl has]
      by (simp add: getModel_found [OF cl Some] createTextToImageModel_def
            createTextToVideoModel_def createTextToAudioModel_def)
  qed
next
  show "\<exists>model. resolveModel (provider (run (constructor env) evs))
               ''black-forest-labs/flux-schnell'' = Inr model \<and>
            TEXT_TO_IMAGE \<in> set (model_capabilities model)"
    by (simp add: resolveModel_def reachable_flux)
qed

theorem resolveModel_not_found_iff_witness:
  "resolveModel (provider (constructor None)) ''nonexistent/model'' =
     Inl (ModelNotFound ''nonexistent/model'') \<and>
   \<not> Map_has (discoveredModels (provider (constructor None))) ''nonexistent/model'' \<and>
   client (provider (constructor (Some ''r8_token''))) \<noteq> None \<and>
   getModel (\<lambda>i. Inl (TransportError [])) (provider (constructor (Some ''r8_token'')))
     ''nonexistent/model'' = Inl (ModelNotFound ''nonexistent/model'')"
proof -
  have absent: "\<not> Map_has (discoveredModels (provider (constructor env))) ''nonexistent/model''"
    for env
    by (simp add: constructor_models Map_has_def bootstrap_keys)
  have cl: "client (provider (constructor (Some ''r8_token''))) \<noteq> None"
    using constructor_started [of "Some ''r8_token''"] by (simp add: truthy_def)
  note t1 = resolveModel_not_found_iff [of "provider (constructor None)" "''nonexistent/model''"
      "\<lambda>i. Inl (TransportError [])" None "[]"]
  note t2 = resolveModel_not_found_iff [of "provider (constructor (Some ''r8_token''))"
      "''nonexistent/model''" "\<lambda>i. Inl (TransportError [])" None "[]"]
  from t1 absent have a: "resolveModel (provider (constructor None)) ''nonexistent/model'' =
     Inl (ModelNotFound ''nonexistent/model'')" by blast
  from t2 absent cl have b: "getModel (\<lambda>i. Inl (TransportError []))
     (provider (constructor (Some ''r8_token''))) ''nonexistent/model'' =
     Inl (ModelNotFound ''nonexistent/model'')" by blast
  from a b absent cl show ?thesis by blast
qed

text \<open>
  C8. For a configured provider and an id that resolves, \<^verbatim>\<open>getModel\<close> is the create method of
  the first capability of the order [text-to-image, text-to-video, text-to-audio] that the
  entry has, and the text-to-image create method when the entry has none of the three.
\<close>

theorem getModel_dispatch:
  "client this \<noteq> None \<Longrightarrow> resolveModel this modelId = Inr model \<Longrightarrow>
   getModel remote this modelId =
     wrapperConstructor
       (case find (\<lambda>c. c \<in> set (model_capabilities model)) priority of
          Some c \<Rightarrow> c
        | None \<Rightarrow> TEXT_TO_IMAGE)
       remote this modelId"
proof -
  assume cl: "client this \<noteq> None" and res: "resolveModel this modelId = Inr model"
  from res have got: "Map_get (discoveredModels this) modelId = Some model"
    by (simp add: resolveModel_def split: option.splits)
  show ?thesis
    by (simp add: getModel_found [OF cl got] priority_def)
qed

theorem getModel_dispatch_witness:
  "getModel (\<lambda>i. Inl (TransportError [])) (provider (constructor (Some ''r8_token'')))
     ''minimax/video-01'' =
   createTextToVideoModel (\<lambda>i. Inl (TransportError [])) (provider (constructor (Some ''r8_token'')))
     ''minimax/video-01'' \<and>
   getModel (\<lambda>i. Inl (TransportError [])) (provider (constructor (Some ''r8_token'')))
     ''tencentarc/gfpgan'' =
   createTextToImageModel (\<lambda>i. Inl (TransportError [])) (provider (constructor (Some ''r8_token'')))
     ''tencentarc/gfpgan''"
proof -
  let ?p = "provider (constructor (Some ''r8_token''))"
  have cl: "client ?p \<noteq> None"
    using constructor_started [of "Some ''r8_token''"] by (simp add: truthy_def)
  have video: "resolveModel ?p ''minimax/video-01'' =
      Inr \<lparr> model_id = ''minimax/video-01'', model_name = ''MiniMax Video-01'',
            model_description = ''Advanced text-to-video model'',
            model_capabilities = [TEXT_TO_VIDEO], model_parameters = knownParameters \<rparr>"
    by (simp add: resolveModel_def constructor_models bootstrap_catalog knownModels_def Map_get_def)
  have face: "resolveModel ?p ''tencentarc/gfpgan'' =
      Inr \<lparr> model_id = ''tencentarc/gfpgan'', model_name = ''GFPGAN'',
            model_description = ''Face restoration and enhancement'',
            model_capabilities = [IMAGE_TO_IMAGE], model_parameters = knownParameters \<rparr>"
    by (simp add: resolveModel_def constructor_models bootstrap_catalog knownModels_def Map_get_def)
  show ?thesis
    using getModel_dispatch [OF cl video, of "\<lambda>i. Inl (TransportError [])"]
          getModel_dispatch [OF cl face, of "\<lambda>i. Inl (TransportError [])"]
    by (simp add: priority_def)
qed

text \<open>
  C9. Without a client \<^verbatim>\<open>getModel\<close> throws the not-configured error for every id, whatever the
  Catalog holds. A provider constructed without a token in the environment has no client and
  gets none from any events other than a \<^verbatim>\<open>configure\<close> call with a key, while the bootstrap
  id black-forest-labs/flux-schnell is in its Catalog all along.
\<close>

theorem getModel_requires_client:
  "(client this = None \<longrightarrow> getModel remote this modelId = Inl ProviderNotConfigured) \<and>
   (\<not> truthy env \<and> list_all withoutCredential evs \<longrightarrow>
      getModel remote (provider (run (constructor env) evs)) modelId =
        Inl ProviderNotConfigured \<and>
      Map_has (discoveredModels (provider (run (constructor env) evs)))
        ''black-forest-labs/flux-schnell'')"
proof (intro conjI impI)
  assume "client this = None"
  then show "getModel remote this modelId = Inl ProviderNotConfigured"
    by (simp add: getModel_def)
next
  assume a: "\<not> truthy env \<and> list_all withoutCredential evs"
  then have "client (provider (run (constructor env) evs)) = None"
    using run_client_None [OF constructor_idle] by simp
  then show "getModel remote (provider (run (constructor env) evs)) modelId =
        Inl ProviderNotConfigured"
    by (simp add: getModel_def)
next
  show "Map_has (discoveredModels (provider (run (constructor env) evs)))
        ''black-forest-labs/flux-schnell''"
    by (simp add: Map_has_get reachable_flux)
qed

theorem getModel_requires_client_witness:
  "\<not> truthy None \<and>
   list_all withoutCredential
     [ConfigureCall \<lparr> cfg_apiKey = None, cfg_timeout = None, cfg_retries = None \<rparr>] \<and>
   getModel (\<lambda>i. Inl (TransportError []))
     (provider (run (constructor None)
        [ConfigureCall \<lparr> cfg_apiKey = None, cfg_timeout = None, cfg_retries = None \<rparr>]))
     ''black-forest-labs/flux-schnell'' = Inl ProviderNotConfigured \<and>
   Map_has (discoveredModels (provider (run (constructor None)
        [ConfigureCall \<lparr> cfg_apiKey = None, cfg_timeout = None, cfg_retries = None \<rparr>])))
     ''black-forest-labs/flux-schnell''"
proof -
  have h: "\<not> truthy None \<and>
   list_all withoutCredential
     [ConfigureCall \<lparr> cfg_apiKey = None, cfg_timeout = None, cfg_retries = None \<rparr>]"
    by (simp add: truthy_def)
  note t = getModel_requires_client [of "provider (constructor None)"
      "\<lambda>i. Inl (TransportError [])" "''black-forest-labs/flux-schnell''" None
      "[ConfigureCall \<lparr> cfg_apiKey = None, cfg_timeout = None, cfg_retries = None \<rparr>]"]
  from t h show ?thesis by blast
qed

text \<open>
  C10. \<^verbatim>\<open>getModelsForCapability\<close> leaves the provider as it is, so a second call returns the
  same sequence as the first; the sequence is the entries of the Catalog whose capabilities
  include the requested one, in Catalog order.
\<close>

theorem getModelsForCapability_pure:
  "snd (getModelsForCapability this c) = this \<and>
   fst (getModelsForCapability (snd (getModelsForCapability this c)) c) =
     fst (getModelsForCapability this c) \<and>
   fst (getModelsForCapability this c) =
     filter (\<lambda>model. c \<in> set (model_capabilities model)) (Map_values (discoveredModels this)) \<and>
   set (fst (getModelsForCapability this c)) =
     {model \<in> set (Map_values (discoveredModels this)). c \<in> set (model_capabilities model)} \<and>
   subseq (fst (getModelsForCapability this c)) (Map_values (discoveredModels this))"
proof -
  let ?hits = "filter (\<lambda>model. c \<in> set (model_capabilities model))
                 (Map_values (discoveredModels this))"
  have call: "getModelsForCapability this c = (?hits, this)"
    by (simp add: getModelsForCapability_def models_def)
  have members: "set ?hits =
      {model \<in> set (Map_values (discoveredModels this)). c \<in> set (model_capabilities model)}"
    by (rule set_filter)
  have order: "subseq ?hits (Map_values (discoveredModels this))"
    by (rule subseq_filter_left)
  show ?thesis
    unfolding call fst_conv snd_conv
    using members order by (simp add: call)
qed

theorem getModelsForCapability_pure_witness:
  "map model_id (fst (getModelsForCapability (provider (constructor None)) TEXT_TO_VIDEO)) =
     [''lumalabs/dream-machine'', ''minimax/video-01'', ''genmo/mochi-1-preview''] \<and>
   fst (getModelsForCapability
          (snd (getModelsForCapability (provider (constructor None)) TEXT_TO_VIDEO))
          TEXT_TO_VIDEO) =
     fst (getModelsForCapability (provider (constructor None)) TEXT_TO_VIDEO)"
proof -
  note t = getModelsForCapability_pure [of "provider (constructor None)" TEXT_TO_VIDEO]
  from t have same: "fst (getModelsForCapability
          (snd (getModelsForCapability (provider (constructor None)) TEXT_TO_VIDEO))
          TEXT_TO_VIDEO) =
     fst (getModelsForCapability (provider (constructor None)) TEXT_TO_VIDEO)"
    by (elim conjE)
  from t have "fst (getModelsForCapability (provider (constructor None)) TEXT_TO_VIDEO) =
     filter (\<lambda>model. TEXT_TO_VIDEO \<in> set (model_capabilities model))
       (Map_values (discoveredModels (provider (constructor None))))"
    by (elim conjE)
  then have ids: "map model_id
       (fst (getModelsForCapability (provider (constructor None)) TEXT_TO_VIDEO)) =
     [''lumalabs/dream-machine'', ''minimax/video-01'', ''genmo/mochi-1-preview'']"
    by (simp add: constructor_models bootstrap_values knownModels_def)
  from ids same show ?thesis by (rule conjI)
qed

end
